theory Spec2Isabelle
  imports Complex_Main "HOL-Library.Sublist"
begin

section \<open>The currency converter hook of react-currency-localizer\<close>

text \<open>
  This theory embeds \<^verbatim>\<open>src/hooks/useCurrencyConverter.ts\<close> and the interfaces of
  \<^verbatim>\<open>src/types/index.ts\<close>.

  Conventions of the embedding.
  \<^item> A JavaScript string is a \<open>string\<close> holding its UTF-8 bytes. \<^verbatim>\<open>trim\<close> strips every
    character that is white space or a line terminator for JavaScript, each given by its
    bytes. \<^verbatim>\<open>toUpperCase\<close> maps the letters \<open>a\<close> to \<open>z\<close>, which currency codes are made of,
    and leaves every other byte alone.
  \<^item> A finite JavaScript number is a real number and arithmetic on it is exact; \<open>NaN\<close> is a
    value of its own. The binary rounding of IEEE doubles, the infinities and the negative
    zero are not represented.
  \<^item> \<^verbatim>\<open>null\<close> and \<^verbatim>\<open>undefined\<close> of an optional value are \<open>None\<close>; where the source
    tells them apart (the rate looked up in the table) the model has a constructor for each.
  \<^item> The interfaces are taken at their word: \<^verbatim>\<open>basePrice\<close> is a number, and
    \<^verbatim>\<open>conversion_rates\<close> is an object whose own properties are numbers, so the tests
    \<^verbatim>\<open>typeof basePrice === 'number'\<close> and \<^verbatim>\<open>exchangeData.conversion_rates\<close> (an object is
    truthy) always pass. The own properties are a map; the properties the object inherits
    from \<^verbatim>\<open>Object.prototype\<close> are listed by name.
  \<^item> An object has a content and an identity. The content of an \<^verbatim>\<open>Error\<close> is its message.
    The identity is a number: the query library gives one with each error and each data
    object it returns, the hook draws a new one whenever \<^verbatim>\<open>useMemo\<close> computes a value
    again. One identity names one object, so what carries the same identity has the same
    content. Dependencies of \<^verbatim>\<open>useMemo\<close> and \<^verbatim>\<open>useEffect\<close> are compared as React does:
    strings, numbers and booleans by value, objects by identity. A callback is the identity of the
    function passed in: two renders may pass different ones.
  \<^item> The query library (\<^verbatim>\<open>useQuery\<close>) is not part of the repository: what it returns in a
    render is an input of that render, and what the hook passes to it (\<^verbatim>\<open>enabled\<close>, the
    query key) is an output.
\<close>

subsection \<open>Data model (\<^verbatim>\<open>src/types/index.ts\<close>)\<close>

datatype error = Error string

datatype number = Num real | NaN

type_synonym callback = nat

text \<open>
  What \<^verbatim>\<open>conversion_rates[localCurrency]\<close> can be: \<^verbatim>\<open>undefined\<close>, a number, or the member of
  \<^verbatim>\<open>Object.prototype\<close> of that name (a function, for \<^verbatim>\<open>__proto__\<close> an object); and
  \<^verbatim>\<open>null\<close>, which the hook puts in its place.
\<close>

datatype rate = Null | Undefined | Rate real | Inherited string

record CurrencyResult =
  convertedPrice :: "number option"
  localCurrency :: "string option"
  baseCurrency :: string
  exchangeRate :: "rate option"
  isLoading :: bool
  error :: "error option"

record UseCurrencyConverterOptions =
  basePrice :: real
  baseCurrency :: string
  apiKey :: "string option"
  manualCurrency :: "string option"
  onSuccess :: "callback option"
  onError :: "callback option"

datatype geo_status = Geo_success | Geo_fail

record GeolocationResponse =
  status :: geo_status
  currency :: string
  message :: "string option"
  countryCode :: "string option"

datatype rate_result = Rate_success | Rate_error

record ExchangeRateResponse =
  result :: rate_result
  base_code :: string
  conversion_rates :: "string \<rightharpoonup> real"
  error_type :: "string option"
  error_message :: "string option"

text \<open>
  The three values each \<^verbatim>\<open>useQuery\<close> call is destructured into, under the names the hook
  gives them, and the identities of the objects among them: of the error, and of the data
  where the hook uses the data object as a dependency. An identity counts only while its
  object is there.
\<close>

record geo_query =
  geoData :: "GeolocationResponse option"
  geoError :: "error option"
  geoErrorId :: nat
  isGeoLoading :: bool

record exchange_query =
  exchangeData :: "ExchangeRateResponse option"
  exchangeDataId :: nat
  exchangeError :: "error option"
  exchangeErrorId :: nat
  isExchangeLoading :: bool

text \<open>
  The identity of an object a dependency array can hold: an error of the geolocation
  query, an error of the exchange-rate query, or an object the hook has made itself.
\<close>

datatype object_id = GeoErrorObject nat | ExchangeErrorObject nat | Own nat

subsection \<open>Library functions on strings and numbers\<close>

definition upper_char :: "char \<Rightarrow> char" where
  "upper_char c =
     (case map_of (zip ''abcdefghijklmnopqrstuvwxyz'' ''ABCDEFGHIJKLMNOPQRSTUVWXYZ'') c of
        Some u \<Rightarrow> u
      | None \<Rightarrow> c)"

definition toUpperCase :: "string \<Rightarrow> string" where
  "toUpperCase s = map upper_char s"

text \<open>
  The characters \<^verbatim>\<open>String.prototype.trim\<close> strips, in UTF-8: U+0009 to U+000D, U+0020,
  U+00A0, U+1680, U+2000 to U+200A, U+2028, U+2029, U+202F, U+205F, U+3000 and U+FEFF.
\<close>

definition white_space_codes :: "string list" where
  "white_space_codes =
     [[CHR 0x09], [CHR 0x0A], [CHR 0x0B], [CHR 0x0C], [CHR 0x0D], [CHR 0x20],
      [CHR 0xC2, CHR 0xA0],
      [CHR 0xE1, CHR 0x9A, CHR 0x80],
      [CHR 0xE2, CHR 0x80, CHR 0x80], [CHR 0xE2, CHR 0x80, CHR 0x81],
      [CHR 0xE2, CHR 0x80, CHR 0x82], [CHR 0xE2, CHR 0x80, CHR 0x83],
      [CHR 0xE2, CHR 0x80, CHR 0x84], [CHR 0xE2, CHR 0x80, CHR 0x85],
      [CHR 0xE2, CHR 0x80, CHR 0x86], [CHR 0xE2, CHR 0x80, CHR 0x87],
      [CHR 0xE2, CHR 0x80, CHR 0x88], [CHR 0xE2, CHR 0x80, CHR 0x89],
      [CHR 0xE2, CHR 0x80, CHR 0x8A],
      [CHR 0xE2, CHR 0x80, CHR 0xA8], [CHR 0xE2, CHR 0x80, CHR 0xA9],
      [CHR 0xE2, CHR 0x80, CHR 0xAF],
      [CHR 0xE2, CHR 0x81, CHR 0x9F],
      [CHR 0xE3, CHR 0x80, CHR 0x80],
      [CHR 0xEF, CHR 0xBB, CHR 0xBF]]"

text \<open>Taking off the front of a string every one of the given codes, as long as one is there.\<close>

function strip_leading :: "string list \<Rightarrow> string \<Rightarrow> string" where
  "strip_leading codes s =
     (case List.find (\<lambda>w. w \<noteq> [] \<and> take (length w) s = w) codes of
        None \<Rightarrow> s
      | Some w \<Rightarrow> strip_leading codes (drop (length w) s))"
  by pat_completeness auto
termination
proof (relation "measure (\<lambda>(codes, s). length s)")
  show "wf (measure (\<lambda>(codes, s). length s))"
    by simp
next
  fix codes :: "string list" and s w :: string
  assume "List.find (\<lambda>w. w \<noteq> [] \<and> take (length w) s = w) codes = Some w"
  then have w: "w \<noteq> []" "take (length w) s = w"
    by (auto simp add: find_Some_iff)
  have "length (take (length w) s) = length w"
    by (simp only: w(2))
  then have "length w \<le> length s"
    by simp
  then show "((codes, drop (length w) s), (codes, s)) \<in> measure (\<lambda>(codes, s). length s)"
    using w(1) by (cases w) simp_all
qed

declare strip_leading.simps [simp del]

definition trim :: "string \<Rightarrow> string" where
  "trim s =
     rev (strip_leading (map rev white_space_codes) (rev (strip_leading white_space_codes s)))"

text \<open>JavaScript truthiness of a string that may be null or undefined.\<close>

fun truthy :: "string option \<Rightarrow> bool" where
  "truthy None = False"
| "truthy (Some s) = (s \<noteq> [])"

text \<open>\<^verbatim>\<open>a || b\<close> on values that are objects or null: the first that is not null.\<close>

fun or_else :: "'a option \<Rightarrow> 'a option \<Rightarrow> 'a option" where
  "or_else (Some a) b = Some a"
| "or_else None b = b"

text \<open>
  \<^verbatim>\<open>parseFloat(x.toFixed(2))\<close>. \<^verbatim>\<open>toFixed(2)\<close> prints the integer \<open>n\<close> for which
  \<open>n / 100\<close> is nearest to \<open>x\<close>, the larger one of two, after taking the sign off a negative
  \<open>x\<close>; from \<open>10\<^sup>2\<^sup>1\<close> on it prints the number as it is. \<^verbatim>\<open>parseFloat\<close> reads the
  printed number back.
\<close>

definition nearest_hundredth :: "real \<Rightarrow> real" where
  "nearest_hundredth x = of_int \<lfloor>x * 100 + 1 / 2\<rfloor> / 100"

fun toFixed2 :: "number \<Rightarrow> number" where
  "toFixed2 NaN = NaN"
| "toFixed2 (Num x) =
     (if 10 ^ 21 \<le> \<bar>x\<bar> then Num x
      else if x < 0 then Num (- nearest_hundredth (- x))
      else Num (nearest_hundredth x))"

subsection \<open>The values computed in one render\<close>

text \<open>Lines 32 and 33: the codes in upper case; an absent manual code stays absent.\<close>

definition upperBaseCurrency :: "UseCurrencyConverterOptions \<Rightarrow> string" where
  "upperBaseCurrency opts = toUpperCase (baseCurrency opts)"

definition upperManualCurrency :: "UseCurrencyConverterOptions \<Rightarrow> string option" where
  "upperManualCurrency opts = map_option toUpperCase (manualCurrency opts)"

text \<open>Lines 41 to 46: \<^verbatim>\<open>!apiKey || apiKey.trim() === ''\<close>.\<close>

definition apiKeyError :: "UseCurrencyConverterOptions \<Rightarrow> error option" where
  "apiKeyError opts =
     (let missing = Some (Error
            ''API key is missing. Please provide a valid key from exchangerate-api.com.'')
      in case apiKey opts of
           None \<Rightarrow> missing
         | Some k \<Rightarrow> if k = [] \<or> trim k = [] then missing else None)"

text \<open>Lines 83 and 123: the \<^verbatim>\<open>enabled\<close> option of the two queries.\<close>

definition geolocation_enabled :: "UseCurrencyConverterOptions \<Rightarrow> bool" where
  "geolocation_enabled opts = (\<not> truthy (upperManualCurrency opts) \<and> apiKeyError opts = None)"

definition exchange_enabled :: "UseCurrencyConverterOptions \<Rightarrow> string option \<Rightarrow> bool" where
  "exchange_enabled opts lc = (truthy lc \<and> apiKeyError opts = None)"

text \<open>Line 102: the key of the exchange-rate query.\<close>

definition exchange_queryKey ::
  "UseCurrencyConverterOptions \<Rightarrow> string option \<Rightarrow> string \<times> string \<times> string option" where
  "exchange_queryKey opts lc = (''exchange-rates'', upperBaseCurrency opts, lc)"

text \<open>
  The table is an ordinary object, so besides its own properties it has those of
  \<^verbatim>\<open>Object.prototype\<close>. \<^verbatim>\<open>key in table\<close> holds for both kinds, and \<^verbatim>\<open>table[key]\<close> reads an
  own property first and an inherited one otherwise.
\<close>

definition object_prototype_names :: "string list" where
  "object_prototype_names =
     [''constructor'', ''hasOwnProperty'', ''isPrototypeOf'', ''propertyIsEnumerable'',
      ''toLocaleString'', ''toString'', ''valueOf'', ''__proto__'', ''__defineGetter__'',
      ''__defineSetter__'', ''__lookupGetter__'', ''__lookupSetter__'']"

definition has_property :: "ExchangeRateResponse \<Rightarrow> string \<Rightarrow> bool" where
  "has_property d c =
     (case conversion_rates d c of
        Some r \<Rightarrow> True
      | None \<Rightarrow> c \<in> set object_prototype_names)"

definition get_property :: "ExchangeRateResponse \<Rightarrow> string \<Rightarrow> rate" where
  "get_property d c =
     (case conversion_rates d c of
        Some r \<Rightarrow> Rate r
      | None \<Rightarrow> if c \<in> set object_prototype_names then Inherited c else Undefined)"

text \<open>
  Lines 144 to 146, the constant \<^verbatim>\<open>exchangeRate\<close>: \<^verbatim>\<open>null\<close> unless a currency and a table
  are there, else what the table has under the currency.
\<close>

definition exchangeRate_const :: "string option \<Rightarrow> exchange_query \<Rightarrow> rate" where
  "exchangeRate_const lc exch =
     (case (lc, exchangeData exch) of
        (Some c, Some d) \<Rightarrow> if c \<noteq> [] then get_property d c else Null
      | _ \<Rightarrow> Null)"

text \<open>Lines 149 to 154. The quote character is \<open>0x27\<close>.\<close>

definition mismatch_message :: "string \<Rightarrow> string" where
  "mismatch_message c =
     ''Currency '' @ [CHR 0x27] @ c @ [CHR 0x27] @
     '' was detected from your location but is not supported by the exchange rate provider.''"

definition currencyMismatchError :: "string option \<Rightarrow> exchange_query \<Rightarrow> error option" where
  "currencyMismatchError lc exch =
     (case (lc, exchangeData exch) of
        (Some c, Some d) \<Rightarrow>
          if c \<noteq> [] \<and> \<not> has_property d c
          then Some (Error (mismatch_message c))
          else None
      | _ \<Rightarrow> None)"

text \<open>Lines 157 and 158.\<close>

definition isLoading_const :: "string option \<Rightarrow> geo_query \<Rightarrow> exchange_query \<Rightarrow> bool" where
  "isLoading_const lc geo exch = (isGeoLoading geo \<or> (isExchangeLoading exch \<and> truthy lc))"

definition error_const ::
  "UseCurrencyConverterOptions \<Rightarrow> string option \<Rightarrow> geo_query \<Rightarrow> exchange_query \<Rightarrow> error option"
  where
  "error_const opts lc geo exch =
     or_else (geoError geo)
       (or_else (exchangeError exch)
         (or_else (currencyMismatchError lc exch) (apiKeyError opts)))"

text \<open>
  Which object \<^verbatim>\<open>error\<close> is: the same choice on the identities, with \<open>keyId\<close> and
  \<open>misId\<close> the identities of the two errors the hook has memoised.
\<close>

definition error_identity ::
  "UseCurrencyConverterOptions \<Rightarrow> string option \<Rightarrow> geo_query \<Rightarrow> exchange_query \<Rightarrow>
   nat \<Rightarrow> nat \<Rightarrow> object_id option" where
  "error_identity opts lc geo exch keyId misId =
     or_else (map_option (\<lambda>e. GeoErrorObject (geoErrorId geo)) (geoError geo))
       (or_else (map_option (\<lambda>e. ExchangeErrorObject (exchangeErrorId exch)) (exchangeError exch))
         (or_else (map_option (\<lambda>e. Own misId) (currencyMismatchError lc exch))
            (map_option (\<lambda>e. Own keyId) (apiKeyError opts))))"

text \<open>
  Lines 160 to 162. The product of a number with \<^verbatim>\<open>undefined\<close>, with a function or with
  an object is \<open>NaN\<close>, and with \<^verbatim>\<open>null\<close> it is \<open>0\<close>.
\<close>

fun times :: "real \<Rightarrow> rate \<Rightarrow> number" where
  "times b (Rate r) = Num (b * r)"
| "times b Undefined = NaN"
| "times b (Inherited n) = NaN"
| "times b Null = Num 0"

definition convertedPrice_const ::
  "UseCurrencyConverterOptions \<Rightarrow> string option \<Rightarrow> exchange_query \<Rightarrow> number option" where
  "convertedPrice_const opts lc exch =
     (if exchangeRate_const lc exch \<noteq> Null \<and> currencyMismatchError lc exch = None
      then Some (toFixed2 (times (basePrice opts) (exchangeRate_const lc exch)))
      else None)"

text \<open>
  Lines 165 to 172, the content of the object returned. \<^verbatim>\<open>exchangeRate || null\<close> is
  \<^verbatim>\<open>null\<close> for \<^verbatim>\<open>null\<close>, \<^verbatim>\<open>undefined\<close> and \<open>0\<close>, and the value itself otherwise. The
  three memoised values of the hook (\<^verbatim>\<open>apiKeyError\<close>, \<^verbatim>\<open>currencyMismatchError\<close>,
  \<^verbatim>\<open>result\<close>) read nothing but their dependencies, so the content of each is the function
  of them written here; when each is made anew, and so its identity, is part of the render
  below.
\<close>

fun or_null :: "rate \<Rightarrow> rate option" where
  "or_null (Rate r) = (if r = 0 then None else Some (Rate r))"
| "or_null (Inherited n) = Some (Inherited n)"
| "or_null Undefined = None"
| "or_null Null = None"

definition snapshot ::
  "UseCurrencyConverterOptions \<Rightarrow> string option \<Rightarrow> geo_query \<Rightarrow> exchange_query \<Rightarrow> CurrencyResult"
  where
  "snapshot opts lc geo exch =
     \<lparr> convertedPrice = convertedPrice_const opts lc exch,
       localCurrency = lc,
       CurrencyResult.baseCurrency = upperBaseCurrency opts,
       exchangeRate = or_null (exchangeRate_const lc exch),
       isLoading = isLoading_const lc geo exch,
       error = error_const opts lc geo exch \<rparr>"

subsection \<open>The hook across renders\<close>

text \<open>
  What React keeps for one instance of the hook between renders: the state cell of
  \<^verbatim>\<open>useState\<close>; the two refs; for each \<^verbatim>\<open>useMemo\<close> the dependencies it was last computed
  with and the identity of the value computed then; for each \<^verbatim>\<open>useEffect\<close> with a dependency
  array the dependencies of the render that ran last. A cell is empty before the first
  render. \<open>nextObject\<close> counts the identities drawn so far.
\<close>

type_synonym result_deps =
  "number option \<times> string option \<times> string \<times> rate \<times> bool \<times> object_id option"

record hook_state =
  localCurrencyState :: "string option"
  onSuccessRef :: "callback option"
  onErrorRef :: "callback option"
  nextObject :: nat
  apiKeyMemo :: "(string option \<times> nat) option"
  mismatchMemo :: "((string option \<times> nat option) \<times> nat) option"
  resultMemo :: "(result_deps \<times> nat) option"
  currencyEffectDeps :: "(string option \<times> string option) option"
  successEffectDeps :: "(bool \<times> object_id option \<times> number option \<times> nat) option"
  errorEffectDeps :: "(bool \<times> object_id option) option"

text \<open>A call of one of the two callbacks: which function, and the content of its argument.\<close>

datatype notification = SuccessCall callback CurrencyResult | ErrorCall callback error

text \<open>
  Lines 36 to 38, 49 and 50: the initial values, taken from the options of the first render.
  \<^verbatim>\<open>upperManualCurrency || null\<close> is \<^verbatim>\<open>null\<close> for an absent and for an empty code.
\<close>

definition mount :: "UseCurrencyConverterOptions \<Rightarrow> hook_state" where
  "mount opts =
     \<lparr> localCurrencyState =
         (if truthy (upperManualCurrency opts) then upperManualCurrency opts else None),
       onSuccessRef = onSuccess opts,
       onErrorRef = onError opts,
       nextObject = 0,
       apiKeyMemo = None,
       mismatchMemo = None,
       resultMemo = None,
       currencyEffectDeps = None,
       successEffectDeps = None,
       errorEffectDeps = None \<rparr>"

text \<open>
  \<^verbatim>\<open>useMemo\<close>: the value is kept when the cell holds the same dependencies, and computed
  again otherwise, which makes a new object. \<open>memo_id\<close> is the identity of the value the
  render gets, \<open>memo_next\<close> the counter after it.
\<close>

definition memo_hit :: "'d \<Rightarrow> ('d \<times> nat) option \<Rightarrow> bool" where
  "memo_hit deps cell = (case cell of None \<Rightarrow> False | Some (d, i) \<Rightarrow> d = deps)"

definition memo_id :: "'d \<Rightarrow> ('d \<times> nat) option \<Rightarrow> nat \<Rightarrow> nat" where
  "memo_id deps cell fresh =
     (case cell of None \<Rightarrow> fresh | Some (d, i) \<Rightarrow> if d = deps then i else fresh)"

definition memo_next :: "'d \<Rightarrow> ('d \<times> nat) option \<Rightarrow> nat \<Rightarrow> nat" where
  "memo_next deps cell fresh = (if memo_hit deps cell then fresh else Suc fresh)"

text \<open>
  Line 154: the dependency \<^verbatim>\<open>exchangeData\<close> of the memoised mismatch error is an object or
  \<^verbatim>\<open>undefined\<close>.
\<close>

definition exchangeData_identity :: "exchange_query \<Rightarrow> nat option" where
  "exchangeData_identity exch = map_option (\<lambda>d. exchangeDataId exch) (exchangeData exch)"

text \<open>An effect runs after the first render and after a render that changed a dependency.\<close>

fun effect_due :: "'d option \<Rightarrow> 'd \<Rightarrow> bool" where
  "effect_due None deps = True"
| "effect_due (Some prev) deps = (prev \<noteq> deps)"

text \<open>Lines 53 to 56: no dependency array, so it runs after every render.\<close>

definition refs_effect :: "UseCurrencyConverterOptions \<Rightarrow> hook_state \<Rightarrow> hook_state" where
  "refs_effect opts st = st\<lparr> onSuccessRef := onSuccess opts, onErrorRef := onError opts \<rparr>"

text \<open>Lines 135 to 141; \<^verbatim>\<open>geoData?.currency\<close> is \<^verbatim>\<open>undefined\<close> without data.\<close>

definition geoCurrency :: "geo_query \<Rightarrow> string option" where
  "geoCurrency geo = map_option currency (geoData geo)"

definition currency_effect ::
  "UseCurrencyConverterOptions \<Rightarrow> geo_query \<Rightarrow> hook_state \<Rightarrow> hook_state" where
  "currency_effect opts geo st =
     (let deps = (upperManualCurrency opts, geoCurrency geo) in
      if effect_due (currencyEffectDeps st) deps
      then st\<lparr> localCurrencyState :=
                 (if truthy (upperManualCurrency opts) then upperManualCurrency opts
                  else if truthy (geoCurrency geo) then geoCurrency geo
                  else localCurrencyState st),
               currencyEffectDeps := Some deps \<rparr>
      else st)"

text \<open>
  Lines 175 to 179. The values read are those of the render the effect belongs to: the
  dependencies \<^verbatim>\<open>[isLoading, error, convertedPrice, result]\<close>, of which \<^verbatim>\<open>error\<close> and
  \<^verbatim>\<open>result\<close> are objects (\<open>errId\<close>, \<open>resId\<close>), and the contents \<open>err\<close> and \<open>res\<close>.
  The callback is read from the ref.
\<close>

definition success_effect ::
  "bool \<Rightarrow> error option \<Rightarrow> object_id option \<Rightarrow> number option \<Rightarrow> nat \<Rightarrow> CurrencyResult \<Rightarrow>
   hook_state \<Rightarrow> hook_state \<times> notification list" where
  "success_effect loading err errId price resId res st =
     (let deps = (loading, errId, price, resId) in
      if effect_due (successEffectDeps st) deps
      then (st\<lparr> successEffectDeps := Some deps \<rparr>,
            if \<not> loading \<and> err = None \<and> price \<noteq> None
            then (case onSuccessRef st of Some cb \<Rightarrow> [SuccessCall cb res] | None \<Rightarrow> [])
            else [])
      else (st, []))"

text \<open>Lines 181 to 185, with the dependencies \<^verbatim>\<open>[isLoading, error]\<close>.\<close>

definition error_effect ::
  "bool \<Rightarrow> error option \<Rightarrow> object_id option \<Rightarrow> hook_state \<Rightarrow>
   hook_state \<times> notification list" where
  "error_effect loading err errId st =
     (let deps = (loading, errId) in
      if effect_due (errorEffectDeps st) deps
      then (st\<lparr> errorEffectDeps := Some deps \<rparr>,
            if \<not> loading
            then (case (err, onErrorRef st) of
                    (Some e, Some cb) \<Rightarrow> [ErrorCall cb e]
                  | _ \<Rightarrow> [])
            else [])
      else (st, []))"

text \<open>
  One render of the hook and the effects that follow it, in the order of the source. The
  render reads the state cell as it is; \<^verbatim>\<open>setLocalCurrency\<close> changes it for the next render.
  The three \<^verbatim>\<open>useMemo\<close> calls come in the order of lines 41, 149 and 165, with the
  dependencies \<^verbatim>\<open>[apiKey]\<close>, \<^verbatim>\<open>[localCurrency, exchangeData]\<close> and
  \<^verbatim>\<open>[convertedPrice, localCurrency, upperBaseCurrency, exchangeRate, isLoading, error]\<close>.
  The result is the content of the object returned, the state kept, and the callbacks
  called.
\<close>

definition render ::
  "UseCurrencyConverterOptions \<Rightarrow> geo_query \<Rightarrow> exchange_query \<Rightarrow> hook_state \<Rightarrow>
   CurrencyResult \<times> hook_state \<times> notification list" where
  "render opts geo exch st =
     (let lc = localCurrencyState st;
          keyDeps = apiKey opts;
          keyId = memo_id keyDeps (apiKeyMemo st) (nextObject st);
          n1 = memo_next keyDeps (apiKeyMemo st) (nextObject st);
          misDeps = (lc, exchangeData_identity exch);
          misId = memo_id misDeps (mismatchMemo st) n1;
          n2 = memo_next misDeps (mismatchMemo st) n1;
          loading = isLoading_const lc geo exch;
          err = error_const opts lc geo exch;
          errId = error_identity opts lc geo exch keyId misId;
          price = convertedPrice_const opts lc exch;
          resDeps = (price, lc, upperBaseCurrency opts, exchangeRate_const lc exch, loading, errId);
          resId = memo_id resDeps (resultMemo st) n2;
          n3 = memo_next resDeps (resultMemo st) n2;
          res = snapshot opts lc geo exch;
          st0 = st\<lparr> nextObject := n3,
                    apiKeyMemo := Some (keyDeps, keyId),
                    mismatchMemo := Some (misDeps, misId),
                    resultMemo := Some (resDeps, resId) \<rparr>;
          st1 = refs_effect opts st0;
          st2 = currency_effect opts geo st1;
          (st3, calls3) = success_effect loading err errId price resId res st2;
          (st4, calls4) = error_effect loading err errId st3
      in (res, st4, calls3 @ calls4))"

definition rendered :: "CurrencyResult \<times> hook_state \<times> notification list \<Rightarrow> CurrencyResult" where
  "rendered r = fst r"

definition state_after :: "CurrencyResult \<times> hook_state \<times> notification list \<Rightarrow> hook_state" where
  "state_after r = fst (snd r)"


text \<open>
  A sequence of renders of one instance, each with its own options and query results: the
  state it ends in and the callbacks called on the way.
\<close>

fun run_state ::
  "hook_state \<Rightarrow> (UseCurrencyConverterOptions \<times> geo_query \<times> exchange_query) list \<Rightarrow> hook_state"
  where
  "run_state st [] = st"
| "run_state st ((opts, geo, exch) # rs) = run_state (state_after (render opts geo exch st)) rs"


text \<open>The identities a render works with, as functions of its inputs and of the state.\<close>

definition key_identity :: "UseCurrencyConverterOptions \<Rightarrow> hook_state \<Rightarrow> nat" where
  "key_identity opts st = memo_id (apiKey opts) (apiKeyMemo st) (nextObject st)"

definition mismatch_identity ::
  "UseCurrencyConverterOptions \<Rightarrow> exchange_query \<Rightarrow> hook_state \<Rightarrow> nat" where
  "mismatch_identity opts exch st =
     memo_id (localCurrencyState st, exchangeData_identity exch) (mismatchMemo st)
       (memo_next (apiKey opts) (apiKeyMemo st) (nextObject st))"

definition error_object ::
  "UseCurrencyConverterOptions \<Rightarrow> geo_query \<Rightarrow> exchange_query \<Rightarrow> hook_state \<Rightarrow>
   object_id option" where
  "error_object opts geo exch st =
     error_identity opts (localCurrencyState st) geo exch
       (key_identity opts st) (mismatch_identity opts exch st)"

definition result_dependencies ::
  "UseCurrencyConverterOptions \<Rightarrow> geo_query \<Rightarrow> exchange_query \<Rightarrow> hook_state \<Rightarrow> result_deps"
  where
  "result_dependencies opts geo exch st =
     (convertedPrice_const opts (localCurrencyState st) exch, localCurrencyState st,
      upperBaseCurrency opts, exchangeRate_const (localCurrencyState st) exch,
      isLoading_const (localCurrencyState st) geo exch, error_object opts geo exch st)"

definition result_identity ::
  "UseCurrencyConverterOptions \<Rightarrow> geo_query \<Rightarrow> exchange_query \<Rightarrow> hook_state \<Rightarrow> nat" where
  "result_identity opts geo exch st =
     memo_id (result_dependencies opts geo exch st) (resultMemo st)
       (memo_next (localCurrencyState st, exchangeData_identity exch) (mismatchMemo st)
          (memo_next (apiKey opts) (apiKeyMemo st) (nextObject st)))"

text \<open>The state once the three \<^verbatim>\<open>useMemo\<close> calls of a render have filled their cells.\<close>

definition memo_cells ::
  "UseCurrencyConverterOptions \<Rightarrow> geo_query \<Rightarrow> exchange_query \<Rightarrow> hook_state \<Rightarrow> hook_state"
  where
  "memo_cells opts geo exch st =
     st\<lparr> nextObject :=
           memo_next (result_dependencies opts geo exch st) (resultMemo st)
             (memo_next (localCurrencyState st, exchangeData_identity exch) (mismatchMemo st)
                (memo_next (apiKey opts) (apiKeyMemo st) (nextObject st))),
         apiKeyMemo := Some (apiKey opts, key_identity opts st),
         mismatchMemo :=
           Some ((localCurrencyState st, exchangeData_identity exch),
                 mismatch_identity opts exch st),
         resultMemo :=
           Some (result_dependencies opts geo exch st, result_identity opts geo exch st) \<rparr>"

text \<open>The dependency arrays of the two notification effects in a render.\<close>

definition success_deps ::
  "UseCurrencyConverterOptions \<Rightarrow> geo_query \<Rightarrow> exchange_query \<Rightarrow> hook_state \<Rightarrow>
   bool \<times> object_id option \<times> number option \<times> nat" where
  "success_deps opts geo exch st =
     (isLoading_const (localCurrencyState st) geo exch, error_object opts geo exch st,
      convertedPrice_const opts (localCurrencyState st) exch, result_identity opts geo exch st)"

definition error_deps ::
  "UseCurrencyConverterOptions \<Rightarrow> geo_query \<Rightarrow> exchange_query \<Rightarrow> hook_state \<Rightarrow>
   bool \<times> object_id option" where
  "error_deps opts geo exch st =
     (isLoading_const (localCurrencyState st) geo exch, error_object opts geo exch st)"

subsection \<open>Notions of the specification\<close>

text \<open>The first value that is present in a list of optional values, in the order of the list.\<close>

fun first_present :: "'a option list \<Rightarrow> 'a option" where
  "first_present [] = None"
| "first_present (None # xs) = first_present xs"
| "first_present (Some x # xs) = Some x"

text \<open>
  What \<^verbatim>\<open>useQuery\<close> returns for a query that no one has fetched: no data, no error, and it
  is not loading. This is what a hook sees whose queries stay disabled from its first render.
\<close>

definition never_fetched_geo :: geo_query where
  "never_fetched_geo =
     \<lparr> geoData = None, geoError = None, geoErrorId = 0, isGeoLoading = False \<rparr>"

definition never_fetched_exchange :: exchange_query where
  "never_fetched_exchange =
     \<lparr> exchangeData = None, exchangeDataId = 0, exchangeError = None, exchangeErrorId = 0,
       isExchangeLoading = False \<rparr>"

definition missing_key_message :: string where
  "missing_key_message =
     ''API key is missing. Please provide a valid key from exchangerate-api.com.''"

text \<open>
  Two codes that differ at most in the case of their letters: equal once every capital
  letter is made small.
\<close>

definition lower_char :: "char \<Rightarrow> char" where
  "lower_char c =
     (case map_of (zip ''ABCDEFGHIJKLMNOPQRSTUVWXYZ'' ''abcdefghijklmnopqrstuvwxyz'') c of
        Some l \<Rightarrow> l
      | None \<Rightarrow> c)"

definition same_ignoring_case :: "string \<Rightarrow> string \<Rightarrow> bool" where
  "same_ignoring_case a b = (map lower_char a = map lower_char b)"

definition differ_only_in_case ::
  "UseCurrencyConverterOptions \<Rightarrow> UseCurrencyConverterOptions \<Rightarrow> bool" where
  "differ_only_in_case a b =
     (basePrice a = basePrice b \<and> apiKey a = apiKey b
      \<and> onSuccess a = onSuccess b \<and> onError a = onError b
      \<and> same_ignoring_case (baseCurrency a) (baseCurrency b)
      \<and> rel_option same_ignoring_case (manualCurrency a) (manualCurrency b))"





subsection \<open>Concrete inputs\<close>

definition usd_options :: UseCurrencyConverterOptions where
  "usd_options =
     \<lparr> basePrice = 100, baseCurrency = ''USD'', apiKey = Some ''test-api-key'',
       manualCurrency = None, onSuccess = Some 1, onError = Some 2 \<rparr>"

definition blank_key_options :: UseCurrencyConverterOptions where
  "blank_key_options = usd_options\<lparr> apiKey := Some [] \<rparr>"

definition spaces_key_options :: UseCurrencyConverterOptions where
  "spaces_key_options = usd_options\<lparr> apiKey := Some ''   '' \<rparr>"

text \<open>A key of a space, a no-break space (\<open>U+00A0\<close>) and a tab.\<close>

definition nbsp_key_options :: UseCurrencyConverterOptions where
  "nbsp_key_options = usd_options\<lparr> apiKey := Some [CHR 0x20, CHR 0xC2, CHR 0xA0, CHR 0x09] \<rparr>"

definition gbp_manual_options :: UseCurrencyConverterOptions where
  "gbp_manual_options = usd_options\<lparr> manualCurrency := Some ''gbp'' \<rparr>"

definition lower_case_options :: UseCurrencyConverterOptions where
  "lower_case_options =
     usd_options\<lparr> baseCurrency := ''usd'', manualCurrency := Some ''eur'' \<rparr>"

definition upper_case_options :: UseCurrencyConverterOptions where
  "upper_case_options =
     usd_options\<lparr> baseCurrency := ''USD'', manualCurrency := Some ''EUR'' \<rparr>"


definition xyz_manual_options :: UseCurrencyConverterOptions where
  "xyz_manual_options = usd_options\<lparr> manualCurrency := Some ''xyz'' \<rparr>"

definition geo_of :: "string \<Rightarrow> geo_query" where
  "geo_of c =
     \<lparr> geoData = Some \<lparr> status = Geo_success, currency = c, message = None,
                        countryCode = None \<rparr>,
       geoError = None, geoErrorId = 0, isGeoLoading = False \<rparr>"

definition failed_geo :: geo_query where
  "failed_geo =
     \<lparr> geoData = None, geoError = Some (Error ''Geolocation API error: 500''),
       geoErrorId = 1, isGeoLoading = False \<rparr>"

definition loading_geo :: geo_query where
  "loading_geo = \<lparr> geoData = None, geoError = None, geoErrorId = 0, isGeoLoading = True \<rparr>"

text \<open>
  The state of an instance that was given a valid access key and whose geolocation fetch
  has failed.
\<close>

definition after_failed_geo :: hook_state where
  "after_failed_geo =
     run_state (mount usd_options)
       [(usd_options, loading_geo, never_fetched_exchange),
        (usd_options, failed_geo, never_fetched_exchange)]"

definition rates_of :: "(string \<rightharpoonup> real) \<Rightarrow> ExchangeRateResponse" where
  "rates_of t =
     \<lparr> result = Rate_success, base_code = ''USD'', conversion_rates = t,
       error_type = None, error_message = None \<rparr>"

definition fetched_rates :: "(string \<rightharpoonup> real) \<Rightarrow> exchange_query" where
  "fetched_rates t =
     \<lparr> exchangeData = Some (rates_of t), exchangeDataId = 1, exchangeError = None,
       exchangeErrorId = 0, isExchangeLoading = False \<rparr>"

text \<open>
  Rates fetched earlier and still held by the query, after a later fetch of the same key
  has failed: the query reports both the data and the error.
\<close>

definition stale_rates_failed_refetch :: exchange_query where
  "stale_rates_failed_refetch =
     \<lparr> exchangeData = Some (rates_of [''EUR'' \<mapsto> 88 / 100, ''USD'' \<mapsto> 1]),
       exchangeDataId = 1,
       exchangeError = Some (Error ''Exchange rate API error: 500''),
       exchangeErrorId = 1,
       isExchangeLoading = False \<rparr>"


text \<open>The state of an instance after the first render in which geolocation has answered.\<close>

definition resolved_by_geo :: "string \<Rightarrow> hook_state" where
  "resolved_by_geo c =
     state_after (render usd_options (geo_of c) never_fetched_exchange (mount usd_options))"

section \<open>Properties\<close>

subsection \<open>One render, effect by effect\<close>

text \<open>What each effect reads and writes.\<close>

lemma effect_due_iff: "effect_due prev deps = (prev \<noteq> Some deps)"
  by (cases prev) auto

lemma memo_cells_fields:
  "localCurrencyState (memo_cells opts geo exch st) = localCurrencyState st"
  "onSuccessRef (memo_cells opts geo exch st) = onSuccessRef st"
  "onErrorRef (memo_cells opts geo exch st) = onErrorRef st"
  "currencyEffectDeps (memo_cells opts geo exch st) = currencyEffectDeps st"
  "successEffectDeps (memo_cells opts geo exch st) = successEffectDeps st"
  "errorEffectDeps (memo_cells opts geo exch st) = errorEffectDeps st"
  "apiKeyMemo (memo_cells opts geo exch st) = Some (apiKey opts, key_identity opts st)"
  "mismatchMemo (memo_cells opts geo exch st) =
     Some ((localCurrencyState st, exchangeData_identity exch), mismatch_identity opts exch st)"
  "resultMemo (memo_cells opts geo exch st) =
     Some (result_dependencies opts geo exch st, result_identity opts geo exch st)"
  by (simp_all add: memo_cells_def)

lemma refs_effect_fields:
  "onSuccessRef (refs_effect opts st) = onSuccess opts"
  "onErrorRef (refs_effect opts st) = onError opts"
  "successEffectDeps (refs_effect opts st) = successEffectDeps st"
  "errorEffectDeps (refs_effect opts st) = errorEffectDeps st"
  "currencyEffectDeps (refs_effect opts st) = currencyEffectDeps st"
  "localCurrencyState (refs_effect opts st) = localCurrencyState st"
  "apiKeyMemo (refs_effect opts st) = apiKeyMemo st"
  "mismatchMemo (refs_effect opts st) = mismatchMemo st"
  "resultMemo (refs_effect opts st) = resultMemo st"
  by (simp_all add: refs_effect_def)


lemma success_effect_fields:
  "onSuccessRef (fst (success_effect l e ei p ri r st)) = onSuccessRef st"
  "onErrorRef (fst (success_effect l e ei p ri r st)) = onErrorRef st"
  "errorEffectDeps (fst (success_effect l e ei p ri r st)) = errorEffectDeps st"
  "currencyEffectDeps (fst (success_effect l e ei p ri r st)) = currencyEffectDeps st"
  "localCurrencyState (fst (success_effect l e ei p ri r st)) = localCurrencyState st"
  "successEffectDeps (fst (success_effect l e ei p ri r st)) = Some (l, ei, p, ri)"
  "apiKeyMemo (fst (success_effect l e ei p ri r st)) = apiKeyMemo st"
  "mismatchMemo (fst (success_effect l e ei p ri r st)) = mismatchMemo st"
  "resultMemo (fst (success_effect l e ei p ri r st)) = resultMemo st"
  by (simp_all add: success_effect_def Let_def effect_due_iff)

lemma error_effect_fields:
  "onSuccessRef (fst (error_effect l e ei st)) = onSuccessRef st"
  "onErrorRef (fst (error_effect l e ei st)) = onErrorRef st"
  "successEffectDeps (fst (error_effect l e ei st)) = successEffectDeps st"
  "currencyEffectDeps (fst (error_effect l e ei st)) = currencyEffectDeps st"
  "localCurrencyState (fst (error_effect l e ei st)) = localCurrencyState st"
  "errorEffectDeps (fst (error_effect l e ei st)) = Some (l, ei)"
  "apiKeyMemo (fst (error_effect l e ei st)) = apiKeyMemo st"
  "mismatchMemo (fst (error_effect l e ei st)) = mismatchMemo st"
  "resultMemo (fst (error_effect l e ei st)) = resultMemo st"
  by (simp_all add: error_effect_def Let_def effect_due_iff)



text \<open>The render in terms of the effects, with the values of the render named.\<close>

lemma render_unfold:
  "render opts geo exch st =
     (snapshot opts (localCurrencyState st) geo exch,
      fst (error_effect (isLoading_const (localCurrencyState st) geo exch)
             (error_const opts (localCurrencyState st) geo exch)
             (error_object opts geo exch st)
             (fst (success_effect (isLoading_const (localCurrencyState st) geo exch)
                     (error_const opts (localCurrencyState st) geo exch)
                     (error_object opts geo exch st)
                     (convertedPrice_const opts (localCurrencyState st) exch)
                     (result_identity opts geo exch st)
                     (snapshot opts (localCurrencyState st) geo exch)
                     (currency_effect opts geo
                        (refs_effect opts (memo_cells opts geo exch st)))))),
      snd (success_effect (isLoading_const (localCurrencyState st) geo exch)
             (error_const opts (localCurrencyState st) geo exch)
             (error_object opts geo exch st)
             (convertedPrice_const opts (localCurrencyState st) exch)
             (result_identity opts geo exch st)
             (snapshot opts (localCurrencyState st) geo exch)
             (currency_effect opts geo (refs_effect opts (memo_cells opts geo exch st))))
      @ snd (error_effect (isLoading_const (localCurrencyState st) geo exch)
             (error_const opts (localCurrencyState st) geo exch)
             (error_object opts geo exch st)
             (fst (success_effect (isLoading_const (localCurrencyState st) geo exch)
                     (error_const opts (localCurrencyState st) geo exch)
                     (error_object opts geo exch st)
                     (convertedPrice_const opts (localCurrencyState st) exch)
                     (result_identity opts geo exch st)
                     (snapshot opts (localCurrencyState st) geo exch)
                     (currency_effect opts geo
                        (refs_effect opts (memo_cells opts geo exch st)))))))"
  by (simp add: render_def Let_def split_beta memo_cells_def key_identity_def
      mismatch_identity_def error_object_def result_dependencies_def result_identity_def)

lemma rendered_render:
  "rendered (render opts geo exch st) = snapshot opts (localCurrencyState st) geo exch"
  by (simp add: render_unfold rendered_def)

lemma currency_after_render:
  "localCurrencyState (state_after (render opts geo exch st)) =
     localCurrencyState (currency_effect opts geo st)"
  by (simp add: render_unfold state_after_def error_effect_fields success_effect_fields
      currency_effect_def Let_def refs_effect_fields memo_cells_fields)






text \<open>The options enter a render through these values only.\<close>

lemma apiKeyError_cong: "apiKey a = apiKey b \<Longrightarrow> apiKeyError a = apiKeyError b"
  by (simp add: apiKeyError_def)

lemma render_values_cong:
  assumes "basePrice a = basePrice b" and "apiKey a = apiKey b"
    and "upperBaseCurrency a = upperBaseCurrency b"
  shows "snapshot a lc geo exch = snapshot b lc geo exch"
    and "error_const a lc geo exch = error_const b lc geo exch"
    and "convertedPrice_const a lc exch = convertedPrice_const b lc exch"
    and "key_identity a st = key_identity b st"
    and "mismatch_identity a exch st = mismatch_identity b exch st"
    and "error_object a geo exch st = error_object b geo exch st"
    and "result_dependencies a geo exch st = result_dependencies b geo exch st"
    and "result_identity a geo exch st = result_identity b geo exch st"
    and "success_deps a geo exch st = success_deps b geo exch st"
    and "error_deps a geo exch st = error_deps b geo exch st"
    and "memo_cells a geo exch st = memo_cells b geo exch st"
  using assms apiKeyError_cong [of a b]
  by (simp_all add: snapshot_def error_const_def convertedPrice_const_def key_identity_def
      mismatch_identity_def error_object_def error_identity_def result_dependencies_def
      result_identity_def success_deps_def error_deps_def memo_cells_def)

subsection \<open>Auxiliary facts\<close>

lemma currency_effect_cases:
  "localCurrencyState (currency_effect opts geo st) = localCurrencyState st
   \<or> (truthy (upperManualCurrency opts)
       \<and> localCurrencyState (currency_effect opts geo st) = upperManualCurrency opts)
   \<or> (\<not> truthy (upperManualCurrency opts) \<and> truthy (geoCurrency geo)
       \<and> localCurrencyState (currency_effect opts geo st) = geoCurrency geo)"
  by (simp add: currency_effect_def Let_def)

lemma truthy_not_None: "truthy x \<Longrightarrow> x \<noteq> None"
  by (cases x) simp_all

lemma upper_manual_Some:
  assumes "manualCurrency opts = Some m" and "m \<noteq> []"
  shows "upperManualCurrency opts = Some (toUpperCase m)" and "toUpperCase m \<noteq> []"
  using assms by (simp_all add: upperManualCurrency_def toUpperCase_def)

lemma mount_currency:
  "localCurrencyState (mount opts) =
     (case manualCurrency opts of
        None \<Rightarrow> None
      | Some m \<Rightarrow> if m = [] then None else Some (toUpperCase m))"
  by (simp add: mount_def upperManualCurrency_def toUpperCase_def split: option.splits)

lemma resolved_by_geo_currency:
  "c \<noteq> [] \<Longrightarrow> localCurrencyState (resolved_by_geo c) = Some c"
  by (simp add: resolved_by_geo_def currency_after_render currency_effect_def Let_def mount_def
      usd_options_def geo_of_def geoCurrency_def upperManualCurrency_def)

lemma toUpperCase_gbp: "toUpperCase ''gbp'' = ''GBP''"
  by (simp add: toUpperCase_def upper_char_def)

lemma apiKeyError_blank:
  assumes "apiKey opts = None \<or> (\<exists>k. apiKey opts = Some k \<and> trim k = [])"
  shows "apiKeyError opts = Some (Error missing_key_message)"
  using assms by (auto simp add: apiKeyError_def missing_key_message_def)

lemma missing_key_message_names:
  "sublist ''API key is missing'' missing_key_message"
  "sublist ''exchangerate-api.com'' missing_key_message"
proof -
  have "missing_key_message = [] @ ''API key is missing'' @
      ''. Please provide a valid key from exchangerate-api.com.''"
    by (simp add: missing_key_message_def)
  then show "sublist ''API key is missing'' missing_key_message"
    by (metis sublist_appendI)
  have "missing_key_message = ''API key is missing. Please provide a valid key from '' @
      ''exchangerate-api.com'' @ ''.''"
    by (simp add: missing_key_message_def)
  then show "sublist ''exchangerate-api.com'' missing_key_message"
    by (metis sublist_appendI)
qed

lemma render_keeps_currency:
  "localCurrencyState st \<noteq> None \<Longrightarrow>
   localCurrencyState (state_after (render opts geo exch st)) \<noteq> None"
  using currency_effect_cases [of opts geo st]
  by (auto simp add: currency_after_render dest: truthy_not_None)

lemma run_keeps_currency:
  "localCurrencyState st \<noteq> None \<Longrightarrow> localCurrencyState (run_state st rs) \<noteq> None"
proof (induction rs arbitrary: st)
  case Nil
  then show ?case by simp
next
  case (Cons r rs)
  obtain opts geo exch where r: "r = (opts, geo, exch)"
    by (cases r)
  from Cons.prems have "localCurrencyState (state_after (render opts geo exch st)) \<noteq> None"
    by (rule render_keeps_currency)
  then show ?case
    using Cons.IH r by simp
qed

lemma render_failed_geo_retains:
  "\<not> truthy (upperManualCurrency opts) \<Longrightarrow> geoData geo = None \<Longrightarrow>
   localCurrencyState (state_after (render opts geo exch st)) = localCurrencyState st"
  by (simp add: currency_after_render currency_effect_def Let_def geoCurrency_def)

lemma run_failed_geo_retains:
  "\<forall>r \<in> set rs. \<not> truthy (upperManualCurrency (fst r)) \<and> geoData (fst (snd r)) = None \<Longrightarrow>
   localCurrencyState (run_state st rs) = localCurrencyState st"
proof (induction rs arbitrary: st)
  case Nil
  then show ?case by simp
next
  case (Cons r rs)
  obtain opts geo exch where r: "r = (opts, geo, exch)"
    by (cases r)
  with Cons.prems have "\<not> truthy (upperManualCurrency opts)" "geoData geo = None"
    by simp_all
  then have "localCurrencyState (state_after (render opts geo exch st)) = localCurrencyState st"
    by (rule render_failed_geo_retains)
  moreover have "localCurrencyState (run_state (state_after (render opts geo exch st)) rs)
      = localCurrencyState (state_after (render opts geo exch st))"
    using Cons.prems by (intro Cons.IH) simp
  ultimately show ?case
    using r by simp
qed

lemma render_manual_currency:
  assumes "manualCurrency opts = Some m" and "m \<noteq> []"
    and "localCurrencyState st = Some (toUpperCase m)"
  shows "localCurrencyState (state_after (render opts geo exch st)) = Some (toUpperCase m)"
  using assms upper_manual_Some [of opts m]
  by (simp add: currency_after_render currency_effect_def Let_def)

lemma run_manual_currency:
  assumes "\<forall>r \<in> set rs. manualCurrency (fst r) = Some m" and "m \<noteq> []"
    and "localCurrencyState st = Some (toUpperCase m)"
  shows "localCurrencyState (run_state st rs) = Some (toUpperCase m)"
  using assms
proof (induction rs arbitrary: st)
  case Nil
  then show ?case by simp
next
  case (Cons r rs)
  obtain opts geo exch where r: "r = (opts, geo, exch)"
    by (cases r)
  with Cons.prems have "manualCurrency opts = Some m"
    by simp
  then have "localCurrencyState (state_after (render opts geo exch st)) = Some (toUpperCase m)"
    using Cons.prems(2,3) by (rule render_manual_currency)
  then have "localCurrencyState (run_state (state_after (render opts geo exch st)) rs)
      = Some (toUpperCase m)"
    using Cons.prems by (intro Cons.IH) simp_all
  then show ?case
    using r by simp
qed

subsection \<open>Error precedence\<close>

text \<open>
  Claim C1, as the code has it. The \<^verbatim>\<open>error\<close> field of the object returned is the first
  error present in the order: geolocation error, rate-fetch error, currency-mismatch error,
  credential error. The order among the first three is the one of the specification; the
  credential error comes last, not first.
\<close>

theorem error_precedence:
  "error (rendered (render opts geo exch st)) =
     first_present [geoError geo, exchangeError exch,
                    currencyMismatchError (localCurrencyState st) exch, apiKeyError opts]"
proof -
  have "error_const opts (localCurrencyState st) geo exch =
     first_present [geoError geo, exchangeError exch,
                    currencyMismatchError (localCurrencyState st) exch, apiKeyError opts]"
    unfolding error_const_def
    by (cases "geoError geo"; cases "exchangeError exch";
        cases "currencyMismatchError (localCurrencyState st) exch"; cases "apiKeyError opts")
       simp_all
  then show ?thesis
    by (simp add: rendered_render snapshot_def)
qed

text \<open>
  Claim C1 as stated fails. An instance is given a valid access key, its geolocation fetch
  fails, and then its access key becomes empty. The empty key disables the geolocation
  query but the query keeps the error, so two error sources are present; the field is the
  geolocation error, where the order of the claim puts the credential error. (The same
  happens in an instance with an empty key from the start when another instance has left
  the error in the shared query, whose key does not contain the access key.)
\<close>

theorem credential_first_counterexample:
  "error (rendered (render blank_key_options failed_geo never_fetched_exchange
       after_failed_geo))
     = Some (Error ''Geolocation API error: 500'')
   \<and> first_present
        [apiKeyError blank_key_options, geoError failed_geo,
         exchangeError never_fetched_exchange,
         currencyMismatchError (localCurrencyState after_failed_geo) never_fetched_exchange]
     = Some (Error ''API key is missing. Please provide a valid key from exchangerate-api.com.'')"
  by (simp add: rendered_render snapshot_def error_const_def failed_geo_def
      never_fetched_exchange_def blank_key_options_def usd_options_def apiKeyError_def)

subsection \<open>The converted price and the other fields\<close>

text \<open>
  The converted price is there exactly when the table held by the exchange-rate query has
  a property, its own or inherited, named by the resolved currency. Neither \<^verbatim>\<open>isLoading\<close>
  nor \<^verbatim>\<open>error\<close> enters.
\<close>

lemma price_iff_rate_found:
  "convertedPrice (rendered (render opts geo exch st)) \<noteq> None \<longleftrightarrow>
     (\<exists>c d. localCurrencyState st = Some c \<and> c \<noteq> [] \<and> exchangeData exch = Some d
        \<and> has_property d c)"
  by (auto simp add: rendered_render snapshot_def convertedPrice_const_def
      exchangeRate_const_def currencyMismatchError_def get_property_def has_property_def
      split: option.splits)

text \<open>
  The product with \<^verbatim>\<open>undefined\<close> is never taken: a name the table does not have raises
  the mismatch error, which nulls the price. The product with an inherited property is
  taken: for a resolved currency that is no key of the table but the name of a property of
  \<^verbatim>\<open>Object.prototype\<close>, no mismatch error is raised and the price is \<open>NaN\<close>.
\<close>

lemma price_is_defined:
  "convertedPrice (rendered (render opts geo exch st)) \<noteq> None \<Longrightarrow>
   exchangeRate_const (localCurrencyState st) exch \<noteq> Undefined"
  by (auto simp add: rendered_render snapshot_def convertedPrice_const_def
      exchangeRate_const_def currencyMismatchError_def get_property_def has_property_def
      split: option.splits if_splits)

lemma price_of_inherited_name:
  assumes "localCurrencyState st = Some c" and "c \<in> set object_prototype_names"
    and "exchangeData exch = Some d" and "conversion_rates d c = None"
  shows "currencyMismatchError (localCurrencyState st) exch = None"
    and "convertedPrice (rendered (render opts geo exch st)) = Some NaN"
    and "exchangeRate (rendered (render opts geo exch st)) = Some (Inherited c)"
proof -
  have c: "c \<noteq> []"
    using assms(2) by (auto simp add: object_prototype_names_def)
  show "currencyMismatchError (localCurrencyState st) exch = None"
    using assms by (simp add: currencyMismatchError_def has_property_def)
  then show "convertedPrice (rendered (render opts geo exch st)) = Some NaN"
    using assms c
    by (simp add: rendered_render snapshot_def convertedPrice_const_def exchangeRate_const_def
        get_property_def)
  show "exchangeRate (rendered (render opts geo exch st)) = Some (Inherited c)"
    using assms c
    by (simp add: rendered_render snapshot_def exchangeRate_const_def get_property_def)
qed

text \<open>
  Claim C3 at a concrete input. The instance has resolved \<open>EUR\<close> by geolocation; the
  exchange-rate query holds the table fetched earlier and the error of a later fetch that
  failed. The object returned has the converted price \<open>88\<close>, an error, and is not loading:
  the price is not null although the error is not null.
\<close>

theorem price_with_error_example:
  "convertedPrice
     (rendered (render usd_options (geo_of ''EUR'') stale_rates_failed_refetch
        (resolved_by_geo ''EUR''))) = Some (Num 88)
   \<and> error
     (rendered (render usd_options (geo_of ''EUR'') stale_rates_failed_refetch
        (resolved_by_geo ''EUR''))) = Some (Error ''Exchange rate API error: 500'')
   \<and> \<not> isLoading
     (rendered (render usd_options (geo_of ''EUR'') stale_rates_failed_refetch
        (resolved_by_geo ''EUR'')))"
  by (simp add: rendered_render resolved_by_geo_currency snapshot_def convertedPrice_const_def
      exchangeRate_const_def currencyMismatchError_def error_const_def isLoading_const_def
      get_property_def has_property_def
      stale_rates_failed_refetch_def rates_of_def usd_options_def geo_of_def
      nearest_hundredth_def)

text \<open>
  Claim C10. When the table fetched maps the resolved currency to the number \<open>0\<close>, the
  object returned has the converted price \<open>0\<close> and the exchange rate null, and no mismatch
  error is raised.
\<close>

theorem zero_rate:
  assumes "localCurrencyState st = Some c" and "c \<noteq> []"
    and "exchangeData exch = Some d" and "conversion_rates d c = Some 0"
  shows "convertedPrice (rendered (render opts geo exch st)) = Some (Num 0)
       \<and> exchangeRate (rendered (render opts geo exch st)) = None
       \<and> currencyMismatchError (localCurrencyState st) exch = None"
  using assms
  by (auto simp add: rendered_render snapshot_def convertedPrice_const_def exchangeRate_const_def
      currencyMismatchError_def get_property_def has_property_def nearest_hundredth_def)

theorem zero_rate_witness:
  "localCurrencyState (resolved_by_geo ''EUR'') = Some ''EUR'' \<and> ''EUR'' \<noteq> []
   \<and> exchangeData (fetched_rates [''EUR'' \<mapsto> 0]) = Some (rates_of [''EUR'' \<mapsto> 0])
   \<and> conversion_rates (rates_of [''EUR'' \<mapsto> 0]) ''EUR'' = Some 0
   \<and> convertedPrice
       (rendered (render usd_options (geo_of ''EUR'') (fetched_rates [''EUR'' \<mapsto> 0])
          (resolved_by_geo ''EUR''))) = Some (Num 0)
   \<and> exchangeRate
       (rendered (render usd_options (geo_of ''EUR'') (fetched_rates [''EUR'' \<mapsto> 0])
          (resolved_by_geo ''EUR''))) = None"
proof -
  have h1: "localCurrencyState (resolved_by_geo ''EUR'') = Some ''EUR''"
    by (simp add: resolved_by_geo_currency)
  have h2: "''EUR'' \<noteq> []"
    by simp
  have h3: "exchangeData (fetched_rates [''EUR'' \<mapsto> 0]) = Some (rates_of [''EUR'' \<mapsto> 0])"
    by (simp add: fetched_rates_def)
  have h4: "conversion_rates (rates_of [''EUR'' \<mapsto> 0]) ''EUR'' = Some 0"
    by (simp add: rates_of_def)
  show ?thesis
    using h1 h3 h4 zero_rate [OF h1 h2 h3 h4, of usd_options "geo_of ''EUR''"]
    by simp
qed

subsection \<open>The access key\<close>

text \<open>
  Claim C4 as stated fails. An instance is given an empty access key from its first render
  on, while the geolocation query, which is shared and whose key does not contain the access
  key, holds the error of a fetch that failed. Both queries are disabled, and still the
  object returned by the first render carries the geolocation error, not the credential
  error.
\<close>

theorem missing_key_not_reported_counterexample:
  "apiKey blank_key_options = Some []
   \<and> \<not> geolocation_enabled blank_key_options
   \<and> \<not> exchange_enabled blank_key_options (localCurrencyState (mount blank_key_options))
   \<and> error (rendered (render blank_key_options failed_geo never_fetched_exchange
         (mount blank_key_options)))
     = Some (Error ''Geolocation API error: 500'')
   \<and> Error ''Geolocation API error: 500'' \<noteq> Error missing_key_message"
  by (simp add: rendered_render snapshot_def error_const_def failed_geo_def
      blank_key_options_def usd_options_def geolocation_enabled_def exchange_enabled_def
      apiKeyError_def missing_key_message_def)

text \<open>
  Claim C4, as the code has it. For an access key that is absent or that trims to the empty
  string: the credential error is produced, and its message contains \<open>API key is missing\<close>
  and names \<open>exchangerate-api.com\<close>; both queries are disabled, whatever the state of the
  instance, so this instance issues no fetch of either kind; the object returned carries an
  error in every render, and that error is the credential error when neither query holds an
  error and no mismatch error is raised; the object is not loading when neither query is;
  and it has no price when the exchange-rate query holds no data.
\<close>

theorem missing_key_short_circuits:
  assumes "apiKey opts = None \<or> (\<exists>k. apiKey opts = Some k \<and> trim k = [])"
  shows "apiKeyError opts = Some (Error missing_key_message)
       \<and> sublist ''API key is missing'' missing_key_message
       \<and> sublist ''exchangerate-api.com'' missing_key_message
       \<and> \<not> geolocation_enabled opts
       \<and> \<not> exchange_enabled opts lc
       \<and> error (rendered (render opts geo exch st)) \<noteq> None
       \<and> (geoError geo = None \<and> exchangeError exch = None
            \<and> currencyMismatchError (localCurrencyState st) exch = None
          \<longrightarrow> error (rendered (render opts geo exch st)) = Some (Error missing_key_message))
       \<and> (\<not> isGeoLoading geo \<and> \<not> isExchangeLoading exch
          \<longrightarrow> \<not> isLoading (rendered (render opts geo exch st)))
       \<and> (exchangeData exch = None
          \<longrightarrow> convertedPrice (rendered (render opts geo exch st)) = None)"
proof -
  have k: "apiKeyError opts = Some (Error missing_key_message)"
    using assms by (rule apiKeyError_blank)
  have "\<not> geolocation_enabled opts" "\<not> exchange_enabled opts lc"
    using k by (simp_all add: geolocation_enabled_def exchange_enabled_def)
  moreover have "error (rendered (render opts geo exch st)) \<noteq> None"
    using k
    by (cases "geoError geo"; cases "exchangeError exch";
        cases "currencyMismatchError (localCurrencyState st) exch")
       (simp_all add: rendered_render snapshot_def error_const_def)
  moreover have "error (rendered (render opts geo exch st)) = Some (Error missing_key_message)"
    if "geoError geo = None \<and> exchangeError exch = None
        \<and> currencyMismatchError (localCurrencyState st) exch = None"
    using k that by (simp add: rendered_render snapshot_def error_const_def)
  moreover have "\<not> isLoading (rendered (render opts geo exch st))"
    if "\<not> isGeoLoading geo \<and> \<not> isExchangeLoading exch"
    using that by (simp add: rendered_render snapshot_def isLoading_const_def)
  moreover have "convertedPrice (rendered (render opts geo exch st)) = None"
    if "exchangeData exch = None"
    using that
    by (simp add: rendered_render snapshot_def convertedPrice_const_def exchangeRate_const_def
        split: option.splits)
  ultimately show ?thesis
    using k missing_key_message_names by blast
qed

theorem missing_key_short_circuits_witness:
  "(apiKey nbsp_key_options = None
      \<or> (\<exists>k. apiKey nbsp_key_options = Some k \<and> trim k = []))
   \<and> \<not> geolocation_enabled nbsp_key_options
   \<and> \<not> exchange_enabled nbsp_key_options (Some ''EUR'')
   \<and> geoError never_fetched_geo = None \<and> exchangeError never_fetched_exchange = None
   \<and> currencyMismatchError (localCurrencyState (mount nbsp_key_options))
        never_fetched_exchange = None
   \<and> \<not> isGeoLoading never_fetched_geo \<and> \<not> isExchangeLoading never_fetched_exchange
   \<and> exchangeData never_fetched_exchange = None
   \<and> error (rendered (render nbsp_key_options never_fetched_geo never_fetched_exchange
         (mount nbsp_key_options))) = Some (Error missing_key_message)
   \<and> \<not> isLoading (rendered (render nbsp_key_options never_fetched_geo never_fetched_exchange
         (mount nbsp_key_options)))
   \<and> convertedPrice (rendered (render nbsp_key_options never_fetched_geo
         never_fetched_exchange (mount nbsp_key_options))) = None"
proof -
  have "trim [CHR 0x20, CHR 0xC2, CHR 0xA0, CHR 0x09] = []"
    by (simp add: trim_def strip_leading.simps white_space_codes_def)
  then have h: "apiKey nbsp_key_options = None
      \<or> (\<exists>k. apiKey nbsp_key_options = Some k \<and> trim k = [])"
    by (simp add: nbsp_key_options_def usd_options_def)
  have g: "geoError never_fetched_geo = None \<and> exchangeError never_fetched_exchange = None
      \<and> currencyMismatchError (localCurrencyState (mount nbsp_key_options))
           never_fetched_exchange = None"
    by (simp add: never_fetched_geo_def never_fetched_exchange_def currencyMismatchError_def
        split: option.splits)
  have l: "\<not> isGeoLoading never_fetched_geo \<and> \<not> isExchangeLoading never_fetched_exchange"
    by (simp add: never_fetched_geo_def never_fetched_exchange_def)
  have d: "exchangeData never_fetched_exchange = None"
    by (simp add: never_fetched_exchange_def)
  note t = missing_key_short_circuits [OF h, of "Some ''EUR''" never_fetched_geo
      never_fetched_exchange "mount nbsp_key_options"]
  have "error (rendered (render nbsp_key_options never_fetched_geo never_fetched_exchange
         (mount nbsp_key_options))) = Some (Error missing_key_message)"
    using t g by blast
  moreover have "\<not> isLoading (rendered (render nbsp_key_options never_fetched_geo
      never_fetched_exchange (mount nbsp_key_options)))"
    using t l by blast
  moreover have "convertedPrice (rendered (render nbsp_key_options never_fetched_geo
      never_fetched_exchange (mount nbsp_key_options))) = None"
    using t d by blast
  moreover have "\<not> geolocation_enabled nbsp_key_options"
      "\<not> exchange_enabled nbsp_key_options (Some ''EUR'')"
    using t by blast+
  ultimately show ?thesis
    using h g l d by blast
qed

subsection \<open>Currency mismatch\<close>

text \<open>
  Claim C5 as stated fails, in two ways. First: the manual currency is \<open>xyz\<close>, the table
  fetched has no rate for \<open>XYZ\<close>, and the geolocation query, disabled in this instance, holds
  the error of a fetch that failed. The mismatch error is raised, but the object returned
  carries the geolocation error, which line 158 puts before it. Second: geolocation answers
  with the currency \<open>constructor\<close>, which is no key of the table fetched. Line 150 tests
  \<^verbatim>\<open>localCurrency in conversion_rates\<close>, which holds for the inherited property of that
  name, so no mismatch error is raised; the object returned has no error and the converted
  price \<open>NaN\<close>, not null.
\<close>

theorem mismatch_not_reported_counterexample:
  "localCurrencyState (mount xyz_manual_options) = Some ''XYZ''
   \<and> conversion_rates (rates_of [''EUR'' \<mapsto> 85 / 100, ''GBP'' \<mapsto> 73 / 100]) ''XYZ'' = None
   \<and> currencyMismatchError (localCurrencyState (mount xyz_manual_options))
        (fetched_rates [''EUR'' \<mapsto> 85 / 100, ''GBP'' \<mapsto> 73 / 100])
     = Some (Error (mismatch_message ''XYZ''))
   \<and> error
       (rendered (render xyz_manual_options failed_geo
          (fetched_rates [''EUR'' \<mapsto> 85 / 100, ''GBP'' \<mapsto> 73 / 100])
          (mount xyz_manual_options))) = Some (Error ''Geolocation API error: 500'')
   \<and> localCurrencyState (resolved_by_geo ''constructor'') = Some ''constructor''
   \<and> conversion_rates (rates_of [''EUR'' \<mapsto> 85 / 100, ''GBP'' \<mapsto> 73 / 100]) ''constructor''
     = None
   \<and> error
       (rendered (render usd_options (geo_of ''constructor'')
          (fetched_rates [''EUR'' \<mapsto> 85 / 100, ''GBP'' \<mapsto> 73 / 100])
          (resolved_by_geo ''constructor''))) = None
   \<and> convertedPrice
       (rendered (render usd_options (geo_of ''constructor'')
          (fetched_rates [''EUR'' \<mapsto> 85 / 100, ''GBP'' \<mapsto> 73 / 100])
          (resolved_by_geo ''constructor''))) = Some NaN"
proof -
  have x: "toUpperCase ''xyz'' = ''XYZ''"
    by (simp add: toUpperCase_def upper_char_def)
  have m: "localCurrencyState (mount xyz_manual_options) = Some ''XYZ''"
    by (simp add: mount_currency xyz_manual_options_def x)
  have r: "conversion_rates (rates_of [''EUR'' \<mapsto> 85 / 100, ''GBP'' \<mapsto> 73 / 100]) ''XYZ'' = None"
    by (simp add: rates_of_def)
  have e: "currencyMismatchError (Some ''XYZ'')
        (fetched_rates [''EUR'' \<mapsto> 85 / 100, ''GBP'' \<mapsto> 73 / 100])
     = Some (Error (mismatch_message ''XYZ''))"
    by (simp add: currencyMismatchError_def fetched_rates_def rates_of_def has_property_def
        object_prototype_names_def)
  have g: "error
       (rendered (render xyz_manual_options failed_geo
          (fetched_rates [''EUR'' \<mapsto> 85 / 100, ''GBP'' \<mapsto> 73 / 100])
          (mount xyz_manual_options))) = Some (Error ''Geolocation API error: 500'')"
    by (simp add: rendered_render snapshot_def error_const_def failed_geo_def)
  have c: "localCurrencyState (resolved_by_geo ''constructor'') = Some ''constructor''"
    by (simp add: resolved_by_geo_currency)
  have i: "''constructor'' \<in> set object_prototype_names"
    by (simp add: object_prototype_names_def)
  have d: "exchangeData (fetched_rates [''EUR'' \<mapsto> 85 / 100, ''GBP'' \<mapsto> 73 / 100])
      = Some (rates_of [''EUR'' \<mapsto> 85 / 100, ''GBP'' \<mapsto> 73 / 100])"
    by (simp add: fetched_rates_def)
  have n: "conversion_rates (rates_of [''EUR'' \<mapsto> 85 / 100, ''GBP'' \<mapsto> 73 / 100])
      ''constructor'' = None"
    by (simp add: rates_of_def)
  note p = price_of_inherited_name [OF c i d n]
  have "trim ''test-api-key'' = ''test-api-key''"
    by (simp add: trim_def strip_leading.simps white_space_codes_def)
  then have k: "apiKeyError usd_options = None"
    by (simp add: apiKeyError_def usd_options_def)
  have "error
       (rendered (render usd_options (geo_of ''constructor'')
          (fetched_rates [''EUR'' \<mapsto> 85 / 100, ''GBP'' \<mapsto> 73 / 100])
          (resolved_by_geo ''constructor''))) = None"
    using p(1) k
    by (simp add: rendered_render snapshot_def error_const_def geo_of_def fetched_rates_def)
  then show ?thesis
    using m r e g c n p(2) by simp
qed

text \<open>
  Claim C5, as the code has it. When the resolved currency is neither a key of the table
  that was fetched nor the name of a property that every object inherits: the mismatch error
  is raised, and its message contains the code; the object returned carries an error, which
  is the mismatch error when neither fetch has left an error of its own; the converted price
  is null; the local currency is the code. Without a resolved currency, or without a table,
  no mismatch error is raised.
\<close>

theorem mismatch_reported:
  assumes "localCurrencyState st = Some c" and "c \<noteq> []"
    and "exchangeData exch = Some d" and "c \<notin> dom (conversion_rates d)"
    and "c \<notin> set object_prototype_names"
  shows "currencyMismatchError (localCurrencyState st) exch
           = Some (Error (mismatch_message c))
       \<and> sublist c (mismatch_message c)
       \<and> error (rendered (render opts geo exch st)) \<noteq> None
       \<and> (geoError geo = None \<and> exchangeError exch = None
          \<longrightarrow> error (rendered (render opts geo exch st))
                = Some (Error (mismatch_message c)))
       \<and> convertedPrice (rendered (render opts geo exch st)) = None
       \<and> localCurrency (rendered (render opts geo exch st)) = Some c
       \<and> currencyMismatchError None pending = None
       \<and> currencyMismatchError lc (pending\<lparr> exchangeData := None \<rparr>) = None"
proof -
  have m: "currencyMismatchError (localCurrencyState st) exch
      = Some (Error (mismatch_message c))"
    using assms by (simp add: currencyMismatchError_def has_property_def domIff)
  have "sublist c (mismatch_message c)"
    unfolding mismatch_message_def by (metis sublist_appendI append.assoc)
  moreover have "error (rendered (render opts geo exch st)) \<noteq> None"
    using m
    by (cases "geoError geo"; cases "exchangeError exch")
       (simp_all add: rendered_render snapshot_def error_const_def)
  moreover have "error (rendered (render opts geo exch st)) = Some (Error (mismatch_message c))"
    if "geoError geo = None \<and> exchangeError exch = None"
    using m that by (simp add: rendered_render snapshot_def error_const_def)
  moreover have "convertedPrice (rendered (render opts geo exch st)) = None"
    using m by (simp add: rendered_render snapshot_def convertedPrice_const_def)
  moreover have "localCurrency (rendered (render opts geo exch st)) = Some c"
    using assms by (simp add: rendered_render snapshot_def)
  moreover have "currencyMismatchError None pending = None"
    by (simp add: currencyMismatchError_def)
  moreover have "currencyMismatchError lc (pending\<lparr> exchangeData := None \<rparr>) = None"
    by (simp add: currencyMismatchError_def split: option.splits)
  ultimately show ?thesis
    using m by blast
qed

theorem mismatch_reported_witness:
  "localCurrencyState (resolved_by_geo ''XYZ'') = Some ''XYZ''
   \<and> ''XYZ'' \<notin> dom (conversion_rates (rates_of [''EUR'' \<mapsto> 85 / 100, ''GBP'' \<mapsto> 73 / 100]))
   \<and> ''XYZ'' \<notin> set object_prototype_names
   \<and> geoError (geo_of ''XYZ'') = None
   \<and> exchangeError (fetched_rates [''EUR'' \<mapsto> 85 / 100, ''GBP'' \<mapsto> 73 / 100]) = None
   \<and> error
       (rendered (render usd_options (geo_of ''XYZ'')
          (fetched_rates [''EUR'' \<mapsto> 85 / 100, ''GBP'' \<mapsto> 73 / 100])
          (resolved_by_geo ''XYZ''))) = Some (Error (mismatch_message ''XYZ''))
   \<and> convertedPrice
       (rendered (render usd_options (geo_of ''XYZ'')
          (fetched_rates [''EUR'' \<mapsto> 85 / 100, ''GBP'' \<mapsto> 73 / 100])
          (resolved_by_geo ''XYZ''))) = None
   \<and> localCurrency
       (rendered (render usd_options (geo_of ''XYZ'')
          (fetched_rates [''EUR'' \<mapsto> 85 / 100, ''GBP'' \<mapsto> 73 / 100])
          (resolved_by_geo ''XYZ''))) = Some ''XYZ''"
proof -
  have h1: "localCurrencyState (resolved_by_geo ''XYZ'') = Some ''XYZ''"
    by (simp add: resolved_by_geo_currency)
  have h2: "''XYZ'' \<noteq> []"
    by simp
  have h3: "exchangeData (fetched_rates [''EUR'' \<mapsto> 85 / 100, ''GBP'' \<mapsto> 73 / 100])
      = Some (rates_of [''EUR'' \<mapsto> 85 / 100, ''GBP'' \<mapsto> 73 / 100])"
    by (simp add: fetched_rates_def)
  have h4: "''XYZ'' \<notin> dom (conversion_rates (rates_of [''EUR'' \<mapsto> 85 / 100, ''GBP'' \<mapsto> 73 / 100]))"
    by (simp add: rates_of_def)
  have h5: "''XYZ'' \<notin> set object_prototype_names"
    by (simp add: object_prototype_names_def)
  have h6: "geoError (geo_of ''XYZ'') = None
      \<and> exchangeError (fetched_rates [''EUR'' \<mapsto> 85 / 100, ''GBP'' \<mapsto> 73 / 100]) = None"
    by (simp add: geo_of_def fetched_rates_def)
  note t = mismatch_reported [OF h1 h2 h3 h4 h5, of usd_options "geo_of ''XYZ''"]
  have "error
       (rendered (render usd_options (geo_of ''XYZ'')
          (fetched_rates [''EUR'' \<mapsto> 85 / 100, ''GBP'' \<mapsto> 73 / 100])
          (resolved_by_geo ''XYZ''))) = Some (Error (mismatch_message ''XYZ''))"
    using t h6 by blast
  moreover have "convertedPrice
       (rendered (render usd_options (geo_of ''XYZ'')
          (fetched_rates [''EUR'' \<mapsto> 85 / 100, ''GBP'' \<mapsto> 73 / 100])
          (resolved_by_geo ''XYZ''))) = None"
    using t by blast
  moreover have "localCurrency
       (rendered (render usd_options (geo_of ''XYZ'')
          (fetched_rates [''EUR'' \<mapsto> 85 / 100, ''GBP'' \<mapsto> 73 / 100])
          (resolved_by_geo ''XYZ''))) = Some ''XYZ''"
    using t by blast
  ultimately show ?thesis
    using h1 h4 h5 h6 by blast
qed

subsection \<open>Resolution of the target currency\<close>

text \<open>
  Claim C6. When a manual currency is supplied (a code that is not empty), the geolocation
  query is disabled whatever the access key is, the state cell holds the code in upper case
  from the start, the first object returned has it as its local currency, and the cell keeps
  it through every sequence of renders that supply the same manual currency.
\<close>

theorem manual_currency_bypasses_geolocation:
  assumes "manualCurrency opts = Some m" and "m \<noteq> []"
    and "\<forall>r \<in> set rs. manualCurrency (fst r) = Some m"
  shows "\<not> geolocation_enabled opts
       \<and> localCurrencyState (mount opts) = Some (toUpperCase m)
       \<and> localCurrency (rendered (render opts geo exch (mount opts))) = Some (toUpperCase m)
       \<and> localCurrencyState (run_state (mount opts) rs) = Some (toUpperCase m)"
proof -
  have u: "upperManualCurrency opts = Some (toUpperCase m)" "toUpperCase m \<noteq> []"
    using assms(1,2) by (rule upper_manual_Some)+
  have m: "localCurrencyState (mount opts) = Some (toUpperCase m)"
    using u by (simp add: mount_def)
  have "\<not> geolocation_enabled opts"
    using u by (simp add: geolocation_enabled_def)
  moreover have
    "localCurrency (rendered (render opts geo exch (mount opts))) = Some (toUpperCase m)"
    using m by (simp add: rendered_render snapshot_def)
  moreover have "localCurrencyState (run_state (mount opts) rs) = Some (toUpperCase m)"
    using assms(3,2) m by (rule run_manual_currency)
  ultimately show ?thesis
    using m by simp
qed

theorem manual_currency_bypasses_geolocation_witness:
  "manualCurrency gbp_manual_options = Some ''gbp''
   \<and> \<not> geolocation_enabled gbp_manual_options
   \<and> localCurrencyState (mount gbp_manual_options) = Some ''GBP''
   \<and> localCurrency
       (rendered (render gbp_manual_options never_fetched_geo never_fetched_exchange
          (mount gbp_manual_options))) = Some ''GBP''
   \<and> localCurrencyState
       (run_state (mount gbp_manual_options)
          [(gbp_manual_options, never_fetched_geo, never_fetched_exchange),
           (gbp_manual_options, failed_geo, fetched_rates [''GBP'' \<mapsto> 74 / 100])])
       = Some ''GBP''"
proof -
  have h1: "manualCurrency gbp_manual_options = Some ''gbp''"
    by (simp add: gbp_manual_options_def)
  have h2: "''gbp'' \<noteq> []"
    by simp
  have h3: "\<forall>r \<in> set [(gbp_manual_options, never_fetched_geo, never_fetched_exchange),
           (gbp_manual_options, failed_geo, fetched_rates [''GBP'' \<mapsto> 74 / 100])].
      manualCurrency (fst r) = Some ''gbp''"
    by (simp add: gbp_manual_options_def)
  show ?thesis
    using h1 manual_currency_bypasses_geolocation [OF h1 h2 h3,
        of never_fetched_geo never_fetched_exchange]
    by (simp add: toUpperCase_gbp)
qed

text \<open>
  Claim C8. The state cell of the resolved currency starts as the manual currency in upper
  case, or as null without one. A render changes it to the manual currency, or without one
  to the currency of the geolocation data, or leaves it as it is. Once it is not null it is
  not null after any sequence of renders, whatever their options and query results. Renders
  without manual currency and without geolocation data leave it unchanged.
\<close>

theorem resolved_currency_monotonic:
  "localCurrencyState (mount opts) =
     (case manualCurrency opts of
        None \<Rightarrow> None
      | Some m \<Rightarrow> if m = [] then None else Some (toUpperCase m))
   \<and> (localCurrencyState (state_after (render opts geo exch st)) = localCurrencyState st
      \<or> (truthy (upperManualCurrency opts)
          \<and> localCurrencyState (state_after (render opts geo exch st))
              = upperManualCurrency opts)
      \<or> (\<not> truthy (upperManualCurrency opts) \<and> truthy (geoCurrency geo)
          \<and> localCurrencyState (state_after (render opts geo exch st)) = geoCurrency geo))
   \<and> (localCurrencyState st \<noteq> None \<longrightarrow> localCurrencyState (run_state st rs) \<noteq> None)
   \<and> ((\<forall>r \<in> set rs. \<not> truthy (upperManualCurrency (fst r)) \<and> geoData (fst (snd r)) = None)
        \<longrightarrow> localCurrencyState (run_state st rs) = localCurrencyState st)"
  using mount_currency [of opts] currency_effect_cases [of opts geo st]
    run_keeps_currency [of st rs] run_failed_geo_retains [of rs st]
  by (simp only: currency_after_render) blast

theorem resolved_currency_monotonic_witness:
  "localCurrencyState (mount usd_options) = None
   \<and> localCurrencyState (resolved_by_geo ''EUR'') \<noteq> None
   \<and> \<not> truthy (upperManualCurrency usd_options) \<and> geoData failed_geo = None
   \<and> localCurrencyState
       (run_state (resolved_by_geo ''EUR'')
          [(usd_options, failed_geo, never_fetched_exchange),
           (usd_options, failed_geo, stale_rates_failed_refetch)]) = Some ''EUR''"
proof -
  have h1: "localCurrencyState (resolved_by_geo ''EUR'') = Some ''EUR''"
    by (simp add: resolved_by_geo_currency)
  have h2: "\<forall>r \<in> set [(usd_options, failed_geo, never_fetched_exchange),
                 (usd_options, failed_geo, stale_rates_failed_refetch)].
        \<not> truthy (upperManualCurrency (fst r)) \<and> geoData (fst (snd r)) = None"
    by (simp add: usd_options_def upperManualCurrency_def failed_geo_def)
  have h3: "manualCurrency usd_options = None"
    by (simp add: usd_options_def)
  show ?thesis
    using h1 h2 h3
      resolved_currency_monotonic [of usd_options "geo_of ''EUR''" never_fetched_exchange
        "resolved_by_geo ''EUR''"
        "[(usd_options, failed_geo, never_fetched_exchange),
          (usd_options, failed_geo, stale_rates_failed_refetch)]"]
    by simp
qed

subsection \<open>Case of the currency codes\<close>

lemma upper_lower_char: "upper_char (lower_char c) = upper_char c"
  by (simp add: upper_char_def lower_char_def)

lemma toUpperCase_ignores_case:
  assumes "same_ignoring_case a b"
  shows "toUpperCase a = toUpperCase b"
proof -
  have u: "toUpperCase x = map upper_char (map lower_char x)" for x
    by (simp add: toUpperCase_def upper_lower_char comp_def)
  have "toUpperCase a = map upper_char (map lower_char a)"
    by (rule u)
  also have "\<dots> = map upper_char (map lower_char b)"
    using assms by (simp only: same_ignoring_case_def)
  also have "\<dots> = toUpperCase b"
    by (rule u [symmetric])
  finally show ?thesis .
qed

lemma upper_codes_equal:
  assumes "differ_only_in_case a b"
  shows "upperBaseCurrency a = upperBaseCurrency b"
    and "upperManualCurrency a = upperManualCurrency b"
proof -
  show "upperBaseCurrency a = upperBaseCurrency b"
    using assms
    by (simp add: differ_only_in_case_def upperBaseCurrency_def toUpperCase_ignores_case)
  have "rel_option same_ignoring_case (manualCurrency a) (manualCurrency b)"
    using assms by (simp add: differ_only_in_case_def)
  then show "upperManualCurrency a = upperManualCurrency b"
    by (cases "manualCurrency a"; cases "manualCurrency b")
       (simp_all add: upperManualCurrency_def toUpperCase_ignores_case)
qed

text \<open>
  Claim C9. Two inputs that differ at most in the letter case of the base currency and of
  the manual currency start the instance in the same state and, from any state and with any
  query results, give the same render: the same object returned, the same state kept and
  the same callbacks called. They also give both queries the same \<^verbatim>\<open>enabled\<close> option and
  the exchange-rate query the same key.
\<close>

theorem case_insensitive:
  assumes "differ_only_in_case opts opts'"
  shows "mount opts = mount opts'
       \<and> render opts geo exch st = render opts' geo exch st
       \<and> geolocation_enabled opts = geolocation_enabled opts'
       \<and> exchange_enabled opts lc = exchange_enabled opts' lc
       \<and> exchange_queryKey opts lc = exchange_queryKey opts' lc"
proof -
  have f: "basePrice opts = basePrice opts'" "apiKey opts = apiKey opts'"
      "onSuccess opts = onSuccess opts'" "onError opts = onError opts'"
    using assms by (simp_all add: differ_only_in_case_def)
  note u = upper_codes_equal [OF assms]
  note s = render_values_cong [OF f(1,2) u(1)]
  have k: "apiKeyError opts = apiKeyError opts'"
    using f(2) by (rule apiKeyError_cong)
  have "mount opts = mount opts'"
    using f u by (simp add: mount_def)
  moreover have "render opts geo exch st = render opts' geo exch st"
    by (simp add: render_unfold refs_effect_def currency_effect_def Let_def f u s cong: if_cong)
  moreover have "geolocation_enabled opts = geolocation_enabled opts'"
    using u k by (simp add: geolocation_enabled_def)
  moreover have "exchange_enabled opts lc = exchange_enabled opts' lc"
    using k by (simp add: exchange_enabled_def)
  moreover have "exchange_queryKey opts lc = exchange_queryKey opts' lc"
    using u by (simp add: exchange_queryKey_def)
  ultimately show ?thesis by simp
qed

theorem case_insensitive_witness:
  "differ_only_in_case lower_case_options upper_case_options
   \<and> mount lower_case_options = mount upper_case_options
   \<and> render lower_case_options never_fetched_geo (fetched_rates [''EUR'' \<mapsto> 88 / 100])
        (mount lower_case_options)
     = render upper_case_options never_fetched_geo (fetched_rates [''EUR'' \<mapsto> 88 / 100])
        (mount lower_case_options)"
proof -
  have h: "differ_only_in_case lower_case_options upper_case_options"
    by (simp add: differ_only_in_case_def lower_case_options_def upper_case_options_def
        usd_options_def same_ignoring_case_def lower_char_def)
  note t = case_insensitive [OF h, of never_fetched_geo
      "fetched_rates [''EUR'' \<mapsto> 88 / 100]" "mount lower_case_options" None]
  show ?thesis
    by (intro conjI) (rule h, rule t [THEN conjunct1], rule t [THEN conjunct2, THEN conjunct1])
qed

subsection \<open>Notification of the callbacks\<close>























end
